theory Spec2Isabelle
  imports Complex_Main "HOL-Library.Log_Nat"
begin

section \<open>JavaScript values\<close>

text \<open>
  The library (\<^verbatim>\<open>src/index.ts\<close>) wraps the parsed body of an OAuth 2.0 response and
  reads fields out of it with \<^verbatim>\<open>"k" in this.body && typeof this.body.k === "..."\<close>.
  The model below is a shallow embedding of the three classes of that file, together
  with the few JavaScript primitives they use: \<^verbatim>\<open>in\<close>, property reads,
  \<^verbatim>\<open>typeof\<close>, \<^verbatim>\<open>String.prototype.split\<close>, Number addition and multiplication,
  \<^verbatim>\<open>Date.now()\<close> and \<^verbatim>\<open>new Date(n)\<close>.
\<close>

subsection \<open>Numbers\<close>

text \<open>
  A JavaScript Number is an IEEE 754 double: a finite value, one of the two infinities,
  or NaN. Finite values are kept as rationals. The two zeros are identified: no
  operation of this library tells \<^verbatim>\<open>-0\<close> from \<^verbatim>\<open>+0\<close>.
\<close>

datatype number = Finite rat | PosInfinity | NegInfinity | NaN

text \<open>For \<open>x > 0\<close>, the exponent \<open>e\<close> with \<open>2 powi e \<le> x < 2 powi (e + 1)\<close>.\<close>

definition floor_log2 :: "rat \<Rightarrow> int" where
  "floor_log2 x =
     (let k = bitlen (fst (quotient_of x)) - bitlen (snd (quotient_of x))
      in if x < 2 powi k then k - 1 else k)"

definition round_half_even :: "rat \<Rightarrow> int" where
  "round_half_even y =
     (let f = \<lfloor>y\<rfloor>; r = y - of_int f
      in if r < 1 / 2 then f
         else if 1 / 2 < r then f + 1
         else if even f then f else f + 1)"

text \<open>
  The result of an arithmetic operation is its exact value rounded to the nearest
  double, ties to even: 53 bits of mantissa, exponents from \<open>-1022\<close> (all
  subnormals share the spacing \<open>2 powi (-1074)\<close>), overflow to an infinity.
\<close>

definition round_double :: "rat \<Rightarrow> number" where
  "round_double x =
     (if x = 0 then Finite 0
      else let e = max (floor_log2 \<bar>x\<bar>) (- 1022) - 52;
               m = round_half_even (\<bar>x\<bar> / 2 powi e);
               y = of_int m * 2 powi e
           in if 2 powi 1024 \<le> y then (if x < 0 then NegInfinity else PosInfinity)
              else Finite (sgn x * y))"

text \<open>\<^verbatim>\<open>a + b\<close> on Numbers\<close>

fun js_add :: "number \<Rightarrow> number \<Rightarrow> number" where
  "js_add NaN _ = NaN"
| "js_add _ NaN = NaN"
| "js_add PosInfinity NegInfinity = NaN"
| "js_add NegInfinity PosInfinity = NaN"
| "js_add PosInfinity _ = PosInfinity"
| "js_add _ PosInfinity = PosInfinity"
| "js_add NegInfinity _ = NegInfinity"
| "js_add _ NegInfinity = NegInfinity"
| "js_add (Finite x) (Finite y) = round_double (x + y)"

text \<open>\<^verbatim>\<open>a * b\<close> on Numbers\<close>

fun js_mul :: "number \<Rightarrow> number \<Rightarrow> number" where
  "js_mul NaN _ = NaN"
| "js_mul _ NaN = NaN"
| "js_mul (Finite x) (Finite y) = round_double (x * y)"
| "js_mul (Finite x) PosInfinity =
     (if x = 0 then NaN else if 0 < x then PosInfinity else NegInfinity)"
| "js_mul (Finite x) NegInfinity =
     (if x = 0 then NaN else if 0 < x then NegInfinity else PosInfinity)"
| "js_mul PosInfinity (Finite y) =
     (if y = 0 then NaN else if 0 < y then PosInfinity else NegInfinity)"
| "js_mul NegInfinity (Finite y) =
     (if y = 0 then NaN else if 0 < y then NegInfinity else PosInfinity)"
| "js_mul PosInfinity PosInfinity = PosInfinity"
| "js_mul NegInfinity NegInfinity = PosInfinity"
| "js_mul PosInfinity NegInfinity = NegInfinity"
| "js_mul NegInfinity PosInfinity = NegInfinity"

subsection \<open>The clock and Date objects\<close>

text \<open>
  The part of the environment a method can touch: the wall clock, in milliseconds since
  the epoch, and how often \<^verbatim>\<open>Date.now()\<close> has read it so far.
\<close>

record world =
  clock :: int
  clock_reads :: nat

definition Date_now :: "world \<Rightarrow> number \<times> world" where
  "Date_now w = (Finite (of_int (clock w)), w\<lparr>clock_reads := Suc (clock_reads w)\<rparr>)"

text \<open>
  A Date object holds its time value, a Number: a whole number of milliseconds of
  magnitude at most \<open>8.64e15\<close>, or NaN (an Invalid Date). \<^verbatim>\<open>new Date(n)\<close> on a
  Number stores \<^verbatim>\<open>TimeClip(n)\<close>.
\<close>

datatype Date = Date (getTime: number)

definition ToInteger :: "rat \<Rightarrow> int" where
  "ToInteger x = (if 0 \<le> x then \<lfloor>x\<rfloor> else \<lceil>x\<rceil>)"

fun TimeClip :: "number \<Rightarrow> number" where
  "TimeClip (Finite x) =
     (if 8640000000000000 < \<bar>x\<bar> then NaN else Finite (of_int (ToInteger x)))"
| "TimeClip _ = NaN"

definition new_Date :: "number \<Rightarrow> Date" where
  "new_Date n = Date (TimeClip n)"

subsection \<open>Values and payloads\<close>

datatype js_value =
    JUndefined
  | JNull
  | JBoolean bool
  | JNumber (number_of: number)
  | JString (string_of: string)
  | JArray "js_value list"
  | JObject "(string \<times> js_value) list"

text \<open>
  The payload (\<^verbatim>\<open>body: object\<close>) is the object a JSON parser produced: a map from
  property names to values. None of the property names the library asks for is
  inherited from \<^verbatim>\<open>Object.prototype\<close>, so the own properties decide every
  \<^verbatim>\<open>in\<close> test made here.
\<close>

type_synonym payload = "string \<rightharpoonup> js_value"

text \<open>\<^verbatim>\<open>k in obj\<close>\<close>

definition in_op :: "string \<Rightarrow> payload \<Rightarrow> bool" where
  "in_op k obj = (case obj k of None \<Rightarrow> False | Some _ \<Rightarrow> True)"

text \<open>\<^verbatim>\<open>obj.k\<close>: reading an absent property gives \<^verbatim>\<open>undefined\<close>.\<close>

definition get_prop :: "payload \<Rightarrow> string \<Rightarrow> js_value" where
  "get_prop obj k = (case obj k of None \<Rightarrow> JUndefined | Some v \<Rightarrow> v)"

text \<open>
  \<^verbatim>\<open>typeof v\<close>. After a test \<^verbatim>\<open>typeof v === "string"\<close> the value is used as a
  string (\<open>string_of v\<close>), after \<^verbatim>\<open>typeof v === "number"\<close> as a Number
  (\<open>number_of v\<close>).
\<close>

fun typeof :: "js_value \<Rightarrow> string" where
  "typeof JUndefined = ''undefined''"
| "typeof JNull = ''object''"
| "typeof (JBoolean _) = ''boolean''"
| "typeof (JNumber _) = ''number''"
| "typeof (JString _) = ''string''"
| "typeof (JArray _) = ''object''"
| "typeof (JObject _) = ''object''"

subsection \<open>Errors\<close>

text \<open>
  Every failure of the library is \<^verbatim>\<open>throw new Error(message)\<close>. The two kinds of
  failure differ in the message only; the two functions below build the two message
  shapes from a field name.
\<close>

datatype error = Error string

definition MissingOrInvalidField :: "string \<Rightarrow> error" where
  "MissingOrInvalidField name = Error (''Missing or invalid '' @ [CHR 0x27] @ name @ [CHR 0x27] @ '' field'')"

definition InvalidField :: "string \<Rightarrow> error" where
  "InvalidField name = Error (''Invalid '' @ [CHR 0x27] @ name @ [CHR 0x27] @ '' field'')"

section \<open>The result classes\<close>

text \<open>
  A method runs on its receiver \<open>this\<close> in a world and gives back what it returned or
  threw (\<open>Inl\<close> the error), the receiver and the world as the call left them.
\<close>

type_synonym ('o, 'a) outcome = "(error + 'a) \<times> 'o \<times> world"

subsection \<open>\<^verbatim>\<open>class OAuth2RequestResult\<close>\<close>

text \<open>
  The class has the one field \<^verbatim>\<open>body\<close>. The two subclasses add methods and no
  field; they are the extensions of the record by a class tag.
\<close>

record OAuth2RequestResult =
  body :: payload

text \<open>
  \<^verbatim>\<open>new C(b)\<close> gives the new object or the error its constructor threw. The
  constructor is \<^verbatim>\<open>this.body = body\<close>; the subclasses inherit it.
\<close>

definition new_OAuth2RequestResult :: "payload \<Rightarrow> world \<Rightarrow> (error + OAuth2RequestResult) \<times> world" where
  "new_OAuth2RequestResult b w = (Inr \<lparr>body = b\<rparr>, w)"

definition hasErrorCode :: "'x OAuth2RequestResult_scheme \<Rightarrow> world \<Rightarrow> ('x OAuth2RequestResult_scheme, bool) outcome" where
  "hasErrorCode this w =
     (Inr (in_op ''error'' (body this) \<and> typeof (get_prop (body this) ''error'') = ''string''), this, w)"

definition errorCode :: "'x OAuth2RequestResult_scheme \<Rightarrow> world \<Rightarrow> ('x OAuth2RequestResult_scheme, string) outcome" where
  "errorCode this w =
     (if in_op ''error'' (body this) \<and> typeof (get_prop (body this) ''error'') = ''string''
      then (Inr (string_of (get_prop (body this) ''error'')), this, w)
      else (Inl (Error ''Missing or invalid 'error' field''), this, w))"

definition hasErrorDescription :: "'x OAuth2RequestResult_scheme \<Rightarrow> world \<Rightarrow> ('x OAuth2RequestResult_scheme, bool) outcome" where
  "hasErrorDescription this w =
     (Inr (in_op ''error_description'' (body this) \<and> typeof (get_prop (body this) ''error_description'') = ''string''), this, w)"

definition errorDescription :: "'x OAuth2RequestResult_scheme \<Rightarrow> world \<Rightarrow> ('x OAuth2RequestResult_scheme, string) outcome" where
  "errorDescription this w =
     (if in_op ''error_description'' (body this) \<and> typeof (get_prop (body this) ''error_description'') = ''string''
      then (Inr (string_of (get_prop (body this) ''error_description'')), this, w)
      else (Inl (Error ''Missing or invalid 'error_description' field''), this, w))"

definition hasErrorURI :: "'x OAuth2RequestResult_scheme \<Rightarrow> world \<Rightarrow> ('x OAuth2RequestResult_scheme, bool) outcome" where
  "hasErrorURI this w =
     (Inr (in_op ''error_uri'' (body this) \<and> typeof (get_prop (body this) ''error_uri'') = ''string''), this, w)"

definition errorURI :: "'x OAuth2RequestResult_scheme \<Rightarrow> world \<Rightarrow> ('x OAuth2RequestResult_scheme, string) outcome" where
  "errorURI this w =
     (if in_op ''error_uri'' (body this) \<and> typeof (get_prop (body this) ''error_uri'') = ''string''
      then (Inr (string_of (get_prop (body this) ''error_uri'')), this, w)
      else (Inl (Error ''Missing or invalid 'error_uri' field''), this, w))"

definition hasState :: "'x OAuth2RequestResult_scheme \<Rightarrow> world \<Rightarrow> ('x OAuth2RequestResult_scheme, bool) outcome" where
  "hasState this w =
     (Inr (in_op ''state'' (body this) \<and> typeof (get_prop (body this) ''state'') = ''string''), this, w)"

definition state :: "'x OAuth2RequestResult_scheme \<Rightarrow> world \<Rightarrow> ('x OAuth2RequestResult_scheme, string) outcome" where
  "state this w =
     (if in_op ''state'' (body this) \<and> typeof (get_prop (body this) ''state'') = ''string''
      then (Inr (string_of (get_prop (body this) ''state'')), this, w)
      else (Inl (Error ''Missing or invalid 'state' field''), this, w))"

subsection \<open>\<^verbatim>\<open>class TokenRequestResult extends OAuth2RequestResult\<close>\<close>

datatype TokenRequestResult_class = TokenRequestResult_class

type_synonym TokenRequestResult = "TokenRequestResult_class OAuth2RequestResult_scheme"

definition new_TokenRequestResult :: "payload \<Rightarrow> world \<Rightarrow> (error + TokenRequestResult) \<times> world" where
  "new_TokenRequestResult b w = (Inr \<lparr>body = b, \<dots> = TokenRequestResult_class\<rparr>, w)"

definition tokenType :: "TokenRequestResult \<Rightarrow> world \<Rightarrow> (TokenRequestResult, string) outcome" where
  "tokenType this w =
     (if in_op ''token_type'' (body this) \<and> typeof (get_prop (body this) ''token_type'') = ''string''
      then (Inr (string_of (get_prop (body this) ''token_type'')), this, w)
      else (Inl (Error ''Missing or invalid 'token_type' field''), this, w))"

definition accessToken :: "TokenRequestResult \<Rightarrow> world \<Rightarrow> (TokenRequestResult, string) outcome" where
  "accessToken this w =
     (if in_op ''access_token'' (body this) \<and> typeof (get_prop (body this) ''access_token'') = ''string''
      then (Inr (string_of (get_prop (body this) ''access_token'')), this, w)
      else (Inl (Error ''Missing or invalid 'access_token' field''), this, w))"

definition accessTokenExpiresInSeconds :: "TokenRequestResult \<Rightarrow> world \<Rightarrow> (TokenRequestResult, number) outcome" where
  "accessTokenExpiresInSeconds this w =
     (if in_op ''expires_in'' (body this) \<and> typeof (get_prop (body this) ''expires_in'') = ''number''
      then (Inr (number_of (get_prop (body this) ''expires_in'')), this, w)
      else (Inl (Error ''Missing or invalid 'expires_in' field''), this, w))"

text \<open>
  \<^verbatim>\<open>new Date(Date.now() + this.accessTokenExpiresInSeconds() * 1000)\<close>: the operands
  of \<^verbatim>\<open>+\<close> are evaluated from left to right, \<^verbatim>\<open>Date.now()\<close> first.
\<close>

definition accessTokenExpiresAt :: "TokenRequestResult \<Rightarrow> world \<Rightarrow> (TokenRequestResult, Date) outcome" where
  "accessTokenExpiresAt this w =
     (let (now, w1) = Date_now w;
          (r, this1, w2) = accessTokenExpiresInSeconds this w1
      in case r of
           Inl e \<Rightarrow> (Inl e, this1, w2)
         | Inr secs \<Rightarrow> (Inr (new_Date (js_add now (js_mul secs (Finite 1000)))), this1, w2))"

definition hasRefreshToken :: "TokenRequestResult \<Rightarrow> world \<Rightarrow> (TokenRequestResult, bool) outcome" where
  "hasRefreshToken this w =
     (Inr (in_op ''refresh_token'' (body this) \<and> typeof (get_prop (body this) ''refresh_token'') = ''string''), this, w)"

definition refreshToken :: "TokenRequestResult \<Rightarrow> world \<Rightarrow> (TokenRequestResult, string) outcome" where
  "refreshToken this w =
     (if in_op ''refresh_token'' (body this) \<and> typeof (get_prop (body this) ''refresh_token'') = ''string''
      then (Inr (string_of (get_prop (body this) ''refresh_token'')), this, w)
      else (Inl (Error ''Missing or invalid 'refresh_token' field''), this, w))"

definition hasScopes :: "TokenRequestResult \<Rightarrow> world \<Rightarrow> (TokenRequestResult, bool) outcome" where
  "hasScopes this w =
     (Inr (in_op ''scope'' (body this) \<and> typeof (get_prop (body this) ''scope'') = ''string''), this, w)"

text \<open>
  \<^verbatim>\<open>s.split(" ")\<close>, the separator being the one character \<open>c\<close>: the pieces of
  \<open>s\<close> between the occurrences of \<open>c\<close>, in order. (A \<open>string\<close> is a list of
  bytes; in UTF-8 the byte of the ASCII space occurs in no other character, so the cuts
  are those of the UTF-16 string.)
\<close>

fun split_on :: "char \<Rightarrow> string \<Rightarrow> string list" where
  "split_on c [] = [[]]"
| "split_on c (x # xs) =
     (if x = c then [] # split_on c xs
      else (case split_on c xs of
              [] \<Rightarrow> [[x]]
            | piece # pieces \<Rightarrow> (x # piece) # pieces))"

definition scopes :: "TokenRequestResult \<Rightarrow> world \<Rightarrow> (TokenRequestResult, string list) outcome" where
  "scopes this w =
     (if in_op ''scope'' (body this) \<and> typeof (get_prop (body this) ''scope'') = ''string''
      then (Inr (split_on (CHR '' '') (string_of (get_prop (body this) ''scope''))), this, w)
      else (Inl (Error ''Missing or invalid 'scope' field''), this, w))"

subsection \<open>\<^verbatim>\<open>class DeviceAuthorizationRequestResult extends OAuth2RequestResult\<close>\<close>

datatype DeviceAuthorizationRequestResult_class = DeviceAuthorizationRequestResult_class

type_synonym DeviceAuthorizationRequestResult =
  "DeviceAuthorizationRequestResult_class OAuth2RequestResult_scheme"

definition new_DeviceAuthorizationRequestResult ::
    "payload \<Rightarrow> world \<Rightarrow> (error + DeviceAuthorizationRequestResult) \<times> world" where
  "new_DeviceAuthorizationRequestResult b w =
     (Inr \<lparr>body = b, \<dots> = DeviceAuthorizationRequestResult_class\<rparr>, w)"

definition deviceCode :: "DeviceAuthorizationRequestResult \<Rightarrow> world \<Rightarrow> (DeviceAuthorizationRequestResult, string) outcome" where
  "deviceCode this w =
     (if in_op ''device_code'' (body this) \<and> typeof (get_prop (body this) ''device_code'') = ''string''
      then (Inr (string_of (get_prop (body this) ''device_code'')), this, w)
      else (Inl (Error ''Missing or invalid 'device_code' field''), this, w))"

definition userCode :: "DeviceAuthorizationRequestResult \<Rightarrow> world \<Rightarrow> (DeviceAuthorizationRequestResult, string) outcome" where
  "userCode this w =
     (if in_op ''user_code'' (body this) \<and> typeof (get_prop (body this) ''user_code'') = ''string''
      then (Inr (string_of (get_prop (body this) ''user_code'')), this, w)
      else (Inl (Error ''Missing or invalid 'user_code' field''), this, w))"

definition verificationURI :: "DeviceAuthorizationRequestResult \<Rightarrow> world \<Rightarrow> (DeviceAuthorizationRequestResult, string) outcome" where
  "verificationURI this w =
     (if in_op ''verification_uri'' (body this) \<and> typeof (get_prop (body this) ''verification_uri'') = ''string''
      then (Inr (string_of (get_prop (body this) ''verification_uri'')), this, w)
      else (Inl (Error ''Missing or invalid 'verification_uri' field''), this, w))"

definition codesExpireInSeconds :: "DeviceAuthorizationRequestResult \<Rightarrow> world \<Rightarrow> (DeviceAuthorizationRequestResult, number) outcome" where
  "codesExpireInSeconds this w =
     (if in_op ''expires_in'' (body this) \<and> typeof (get_prop (body this) ''expires_in'') = ''number''
      then (Inr (number_of (get_prop (body this) ''expires_in'')), this, w)
      else (Inl (Error ''Missing or invalid 'expires_in' field''), this, w))"

definition codesExpireAt ::
    "DeviceAuthorizationRequestResult \<Rightarrow> world \<Rightarrow> (DeviceAuthorizationRequestResult, Date) outcome" where
  "codesExpireAt this w =
     (let (now, w1) = Date_now w;
          (r, this1, w2) = codesExpireInSeconds this w1
      in case r of
           Inl e \<Rightarrow> (Inl e, this1, w2)
         | Inr secs \<Rightarrow> (Inr (new_Date (js_add now (js_mul secs (Finite 1000)))), this1, w2))"

definition intervalSeconds ::
    "DeviceAuthorizationRequestResult \<Rightarrow> world \<Rightarrow> (DeviceAuthorizationRequestResult, number) outcome" where
  "intervalSeconds this w =
     (if in_op ''interval'' (body this)
      then (if typeof (get_prop (body this) ''interval'') = ''number''
            then (Inr (number_of (get_prop (body this) ''interval'')), this, w)
            else (Inl (Error ''Invalid 'interval' field''), this, w))
      else (Inr (Finite 5), this, w))"

section \<open>Notions the properties are stated with\<close>

text \<open>
  \<^verbatim>\<open>pieces.join(sep)\<close>, to say what a split is: the pieces, joined by the
  separator, give the string back.
\<close>

fun join :: "string \<Rightarrow> string list \<Rightarrow> string" where
  "join sep [] = []"
| "join sep [x] = x"
| "join sep (x # y # ys) = x @ sep @ join sep (y # ys)"

text \<open>
  A call is a pure read when it leaves the receiver and the world as they were and
  returns what it returns in any other world \<open>w'\<close>.
\<close>

definition pure_read :: "('o \<Rightarrow> world \<Rightarrow> ('o, 'a) outcome) \<Rightarrow> 'o \<Rightarrow> world \<Rightarrow> world \<Rightarrow> bool" where
  "pure_read m this w w' \<longleftrightarrow> m this w = (fst (m this w'), this, w)"

section \<open>Rounding\<close>

text \<open>
  Two known values: the double nearest to \<open>0.1\<close> is \<open>3602879701896397 / 2 ^ 55\<close>, and
  \<open>2 ^ 53 + 1\<close>, half way between two doubles, goes to the even one.
\<close>

lemma round_double_tenth:
  "round_double (1 / 10) = Finite (3602879701896397 / 36028797018963968)"
  by code_simp

lemma round_double_tie: "round_double 9007199254740993 = Finite 9007199254740992"
  by code_simp

section \<open>Arithmetic that is exact\<close>

text \<open>
  Whole numbers of magnitude up to \<open>2 ^ 53\<close> are doubles, so rounding leaves them as
  they are. The expiry computations on whole numbers of seconds stay in that range.
\<close>

lemma round_half_even_of_int: "round_half_even (of_int z) = z"
  by (simp add: round_half_even_def)

lemma bitlen_one: "bitlen 1 = 1"
  by (simp add: bitlen_alt_def)

lemma floor_log2_of_int:
  assumes "0 < a"
  shows "floor_log2 (of_int a) = bitlen a - 1"
proof -
  have b: "2 ^ nat (bitlen a - 1) \<le> a" using bitlen_bounds[OF assms] by simp
  have ge: "1 \<le> bitlen a" using assms by (simp add: bitlen_alt_def)
  have "\<not> (of_int a :: rat) < 2 powi (bitlen a - 1)"
  proof -
    have "(2::rat) powi (bitlen a - 1) = of_int (2 ^ nat (bitlen a - 1))"
      using ge by (simp add: power_int_def)
    also have "\<dots> \<le> of_int a" using b by (simp only: of_int_le_iff)
    finally show ?thesis by simp
  qed
  then show ?thesis by (simp add: floor_log2_def bitlen_one)
qed

lemma bitlen_le_53:
  assumes "0 < a" "a < 2 ^ 53"
  shows "bitlen a \<le> 53"
proof (rule ccontr)
  assume "\<not> bitlen a \<le> 53"
  then have "53 \<le> nat (bitlen a - 1)" by simp
  then have "(2::int) ^ 53 \<le> 2 ^ nat (bitlen a - 1)"
    by (rule power_increasing) simp
  also have "\<dots> \<le> a" using bitlen_bounds[OF assms(1)] by simp
  finally show False using assms(2) by simp
qed

lemma round_double_exact:
  assumes "x \<noteq> 0"
    and "\<bar>x\<bar> / 2 powi (max (floor_log2 \<bar>x\<bar>) (- 1022) - 52) = of_int m"
    and "\<bar>x\<bar> < 2 powi 1024"
  shows "round_double x = Finite x"
proof -
  let ?e = "max (floor_log2 \<bar>x\<bar>) (- 1022) - 52"
  have p: "(2::rat) powi ?e \<noteq> 0" by simp
  have y: "of_int m * 2 powi ?e = \<bar>x\<bar>"
    using assms(2) p by (metis nonzero_divide_eq_eq)
  have "sgn x * \<bar>x\<bar> = x" by (simp add: sgn_mult_abs)
  with y assms show ?thesis
    by (simp add: round_double_def Let_def round_half_even_of_int)
qed

lemma round_double_2_53: "round_double (of_int (2 ^ 53)) = Finite (of_int (2 ^ 53))"
proof -
  have b: "bitlen (2 ^ 53) = 54" using bitlen_pow2[of 1 53] by (simp add: bitlen_one)
  have fl: "floor_log2 \<bar>of_int (2 ^ 53)\<bar> = 53"
    using floor_log2_of_int[of "2 ^ 53"] b by simp
  have "\<bar>of_int (2 ^ 53) :: rat\<bar> / 2 powi (max (floor_log2 \<bar>of_int (2 ^ 53)\<bar>) (- 1022) - 52)
      = of_int (2 ^ 52)"
    unfolding fl by simp
  moreover have "\<bar>of_int (2 ^ 53) :: rat\<bar> < 2 powi 1024" by simp
  moreover have "(of_int (2 ^ 53) :: rat) \<noteq> 0" by simp
  ultimately show ?thesis by (rule round_double_exact[rotated])
qed

lemma round_double_of_pos_int:
  assumes "0 < a" "a \<le> 2 ^ 53"
  shows "round_double (of_int a) = Finite (of_int a)"
proof (cases "a = 2 ^ 53")
  case True
  then show ?thesis by (simp only: round_double_2_53)
next
  case False
  with assms have lt: "a < 2 ^ 53" by simp
  have ge: "1 \<le> bitlen a" using assms by (simp add: bitlen_alt_def)
  have le: "bitlen a \<le> 53" by (rule bitlen_le_53[OF assms(1) lt])
  have fl: "floor_log2 \<bar>of_int a\<bar> = bitlen a - 1"
    using assms(1) by (simp add: floor_log2_of_int)
  define d where "d = nat (53 - bitlen a)"
  have e: "max (floor_log2 \<bar>of_int a :: rat\<bar>) (- 1022) - 52 = - int d"
    using ge le by (simp add: fl d_def)
  have "\<bar>of_int a :: rat\<bar> / 2 powi (- int d) = of_int (a * 2 ^ d)"
    using assms(1) by (simp add: power_int_minus field_simps)
  moreover have "\<bar>of_int a :: rat\<bar> < 2 powi 1024"
  proof -
    have "(of_int a :: rat) < of_int (2 ^ 53)" using lt by (simp only: of_int_less_iff)
    also have "\<dots> < 2 powi 1024" by simp
    finally show ?thesis using assms(1) by simp
  qed
  moreover have "(of_int a :: rat) \<noteq> 0" using assms(1) by simp
  ultimately show ?thesis using e round_double_exact[of "of_int a" "a * 2 ^ d"] by simp
qed

lemma round_double_neg:
  "round_double (- x) = (case round_double x of Finite y \<Rightarrow> Finite (- y) | PosInfinity \<Rightarrow> NegInfinity | NegInfinity \<Rightarrow> PosInfinity | NaN \<Rightarrow> NaN)"
  by (auto simp add: round_double_def Let_def sgn_if)

lemma round_double_of_int:
  assumes "\<bar>n\<bar> \<le> 2 ^ 53"
  shows "round_double (of_int n) = Finite (of_int n)"
proof -
  consider "n = 0" | "0 < n" | "n < 0" by linarith
  then show ?thesis
  proof cases
    case 1
    then show ?thesis by (simp add: round_double_def)
  next
    case 2
    with assms show ?thesis by (simp add: round_double_of_pos_int)
  next
    case 3
    with assms have "round_double (of_int (- n)) = Finite (of_int (- n))"
      by (intro round_double_of_pos_int) simp_all
    then show ?thesis using round_double_neg[of "of_int (- n)"] by simp
  qed
qed

lemma js_mul_of_int:
  assumes "\<bar>a * b\<bar> \<le> 2 ^ 53"
  shows "js_mul (Finite (of_int a)) (Finite (of_int b)) = Finite (of_int (a * b))"
  using round_double_of_int[OF assms] by simp

lemma js_add_of_int:
  assumes "\<bar>a + b\<bar> \<le> 2 ^ 53"
  shows "js_add (Finite (of_int a)) (Finite (of_int b)) = Finite (of_int (a + b))"
  using round_double_of_int[OF assms] by simp

lemma ToInteger_of_int: "ToInteger (of_int t) = t"
  by (simp add: ToInteger_def)

lemma new_Date_of_int:
  "new_Date (Finite (of_int t)) =
     (if 8640000000000000 < \<bar>t\<bar> then Date NaN else Date (Finite (of_int t)))"
proof -
  have "(8640000000000000 < \<bar>of_int t :: rat\<bar>) = (8640000000000000 < \<bar>t\<bar>)"
    by (metis of_int_abs of_int_less_iff of_int_numeral)
  then show ?thesis by (simp add: new_Date_def ToInteger_of_int)
qed

section \<open>What the guards test\<close>

lemma string_guard:
  "(in_op k b \<and> typeof (get_prop b k) = ''string'') = (\<exists>s. b k = Some (JString s))"
  by (cases "b k"; cases "the (b k)") (simp_all add: in_op_def get_prop_def)

lemma number_guard:
  "(in_op k b \<and> typeof (get_prop b k) = ''number'') = (\<exists>n. b k = Some (JNumber n))"
  by (cases "b k"; cases "the (b k)") (simp_all add: in_op_def get_prop_def)

lemma get_prop_Some: "b k = Some v \<Longrightarrow> get_prop b k = v"
  by (simp add: get_prop_def)

section \<open>Each accessor by cases on the stored value\<close>

lemma hasErrorCode_eq:
  "hasErrorCode this w = (Inr (\<exists>s. body this ''error'' = Some (JString s)), this, w)"
  by (simp add: hasErrorCode_def string_guard)

lemma errorCode_eq:
  "errorCode this w =
     (case body this ''error'' of
        Some (JString s) \<Rightarrow> (Inr s, this, w)
      | _ \<Rightarrow> (Inl (MissingOrInvalidField ''error''), this, w))"
  unfolding errorCode_def string_guard
  by (auto simp add: MissingOrInvalidField_def get_prop_Some split: option.splits js_value.splits)

lemma hasErrorDescription_eq:
  "hasErrorDescription this w = (Inr (\<exists>s. body this ''error_description'' = Some (JString s)), this, w)"
  by (simp add: hasErrorDescription_def string_guard)

lemma errorDescription_eq:
  "errorDescription this w =
     (case body this ''error_description'' of
        Some (JString s) \<Rightarrow> (Inr s, this, w)
      | _ \<Rightarrow> (Inl (MissingOrInvalidField ''error_description''), this, w))"
  unfolding errorDescription_def string_guard
  by (auto simp add: MissingOrInvalidField_def get_prop_Some split: option.splits js_value.splits)

lemma hasErrorURI_eq:
  "hasErrorURI this w = (Inr (\<exists>s. body this ''error_uri'' = Some (JString s)), this, w)"
  by (simp add: hasErrorURI_def string_guard)

lemma errorURI_eq:
  "errorURI this w =
     (case body this ''error_uri'' of
        Some (JString s) \<Rightarrow> (Inr s, this, w)
      | _ \<Rightarrow> (Inl (MissingOrInvalidField ''error_uri''), this, w))"
  unfolding errorURI_def string_guard
  by (auto simp add: MissingOrInvalidField_def get_prop_Some split: option.splits js_value.splits)

lemma hasState_eq:
  "hasState this w = (Inr (\<exists>s. body this ''state'' = Some (JString s)), this, w)"
  by (simp add: hasState_def string_guard)

lemma state_eq:
  "state this w =
     (case body this ''state'' of
        Some (JString s) \<Rightarrow> (Inr s, this, w)
      | _ \<Rightarrow> (Inl (MissingOrInvalidField ''state''), this, w))"
  unfolding state_def string_guard
  by (auto simp add: MissingOrInvalidField_def get_prop_Some split: option.splits js_value.splits)

lemma tokenType_eq:
  "tokenType this w =
     (case body this ''token_type'' of
        Some (JString s) \<Rightarrow> (Inr s, this, w)
      | _ \<Rightarrow> (Inl (MissingOrInvalidField ''token_type''), this, w))"
  unfolding tokenType_def string_guard
  by (auto simp add: MissingOrInvalidField_def get_prop_Some split: option.splits js_value.splits)

lemma accessToken_eq:
  "accessToken this w =
     (case body this ''access_token'' of
        Some (JString s) \<Rightarrow> (Inr s, this, w)
      | _ \<Rightarrow> (Inl (MissingOrInvalidField ''access_token''), this, w))"
  unfolding accessToken_def string_guard
  by (auto simp add: MissingOrInvalidField_def get_prop_Some split: option.splits js_value.splits)

lemma accessTokenExpiresInSeconds_eq:
  "accessTokenExpiresInSeconds this w =
     (case body this ''expires_in'' of
        Some (JNumber n) \<Rightarrow> (Inr n, this, w)
      | _ \<Rightarrow> (Inl (MissingOrInvalidField ''expires_in''), this, w))"
  unfolding accessTokenExpiresInSeconds_def number_guard
  by (auto simp add: MissingOrInvalidField_def get_prop_Some split: option.splits js_value.splits)

lemma hasRefreshToken_eq:
  "hasRefreshToken this w = (Inr (\<exists>s. body this ''refresh_token'' = Some (JString s)), this, w)"
  by (simp add: hasRefreshToken_def string_guard)

lemma refreshToken_eq:
  "refreshToken this w =
     (case body this ''refresh_token'' of
        Some (JString s) \<Rightarrow> (Inr s, this, w)
      | _ \<Rightarrow> (Inl (MissingOrInvalidField ''refresh_token''), this, w))"
  unfolding refreshToken_def string_guard
  by (auto simp add: MissingOrInvalidField_def get_prop_Some split: option.splits js_value.splits)

lemma hasScopes_eq:
  "hasScopes this w = (Inr (\<exists>s. body this ''scope'' = Some (JString s)), this, w)"
  by (simp add: hasScopes_def string_guard)

lemma scopes_eq:
  "scopes this w =
     (case body this ''scope'' of
        Some (JString s) \<Rightarrow> (Inr (split_on (CHR '' '') s), this, w)
      | _ \<Rightarrow> (Inl (MissingOrInvalidField ''scope''), this, w))"
  unfolding scopes_def string_guard
  by (auto simp add: MissingOrInvalidField_def get_prop_Some split: option.splits js_value.splits)

lemma deviceCode_eq:
  "deviceCode this w =
     (case body this ''device_code'' of
        Some (JString s) \<Rightarrow> (Inr s, this, w)
      | _ \<Rightarrow> (Inl (MissingOrInvalidField ''device_code''), this, w))"
  unfolding deviceCode_def string_guard
  by (auto simp add: MissingOrInvalidField_def get_prop_Some split: option.splits js_value.splits)

lemma userCode_eq:
  "userCode this w =
     (case body this ''user_code'' of
        Some (JString s) \<Rightarrow> (Inr s, this, w)
      | _ \<Rightarrow> (Inl (MissingOrInvalidField ''user_code''), this, w))"
  unfolding userCode_def string_guard
  by (auto simp add: MissingOrInvalidField_def get_prop_Some split: option.splits js_value.splits)

lemma verificationURI_eq:
  "verificationURI this w =
     (case body this ''verification_uri'' of
        Some (JString s) \<Rightarrow> (Inr s, this, w)
      | _ \<Rightarrow> (Inl (MissingOrInvalidField ''verification_uri''), this, w))"
  unfolding verificationURI_def string_guard
  by (auto simp add: MissingOrInvalidField_def get_prop_Some split: option.splits js_value.splits)

lemma codesExpireInSeconds_eq:
  "codesExpireInSeconds this w =
     (case body this ''expires_in'' of
        Some (JNumber n) \<Rightarrow> (Inr n, this, w)
      | _ \<Rightarrow> (Inl (MissingOrInvalidField ''expires_in''), this, w))"
  unfolding codesExpireInSeconds_def number_guard
  by (auto simp add: MissingOrInvalidField_def get_prop_Some split: option.splits js_value.splits)

lemma intervalSeconds_eq:
  "intervalSeconds this w =
     (case body this ''interval'' of
        None \<Rightarrow> (Inr (Finite 5), this, w)
      | Some (JNumber n) \<Rightarrow> (Inr n, this, w)
      | Some _ \<Rightarrow> (Inl (InvalidField ''interval''), this, w))"
  by (auto simp add: intervalSeconds_def in_op_def get_prop_def InvalidField_def
      split: option.splits js_value.splits)

lemma accessTokenExpiresAt_eq:
  "accessTokenExpiresAt this w =
     (case body this ''expires_in'' of
        Some (JNumber n) \<Rightarrow>
          (Inr (new_Date (js_add (Finite (of_int (clock w))) (js_mul n (Finite 1000)))),
           this, w\<lparr>clock_reads := Suc (clock_reads w)\<rparr>)
      | _ \<Rightarrow> (Inl (MissingOrInvalidField ''expires_in''),
           this, w\<lparr>clock_reads := Suc (clock_reads w)\<rparr>))"
  by (simp add: accessTokenExpiresAt_def Date_now_def accessTokenExpiresInSeconds_eq
      split: option.splits js_value.splits)

lemma codesExpireAt_eq:
  "codesExpireAt this w =
     (case body this ''expires_in'' of
        Some (JNumber n) \<Rightarrow>
          (Inr (new_Date (js_add (Finite (of_int (clock w))) (js_mul n (Finite 1000)))),
           this, w\<lparr>clock_reads := Suc (clock_reads w)\<rparr>)
      | _ \<Rightarrow> (Inl (MissingOrInvalidField ''expires_in''),
           this, w\<lparr>clock_reads := Suc (clock_reads w)\<rparr>))"
  by (simp add: codesExpireAt_def Date_now_def codesExpireInSeconds_eq
      split: option.splits js_value.splits)

section \<open>The four optional fields of the base class\<close>

lemma has_get_error:
  "fst (hasErrorCode this w) = Inr (\<exists>s. body this ''error'' = Some (JString s)) \<and>
   (\<forall>s. body this ''error'' = Some (JString s) \<longrightarrow> fst (errorCode this w) = Inr s) \<and>
   ((\<nexists>s. body this ''error'' = Some (JString s)) \<longrightarrow>
      fst (errorCode this w) = Inl (MissingOrInvalidField ''error''))"
  by (auto simp add: hasErrorCode_eq errorCode_eq split: option.splits js_value.splits)

lemma has_get_error_description:
  "fst (hasErrorDescription this w) = Inr (\<exists>s. body this ''error_description'' = Some (JString s)) \<and>
   (\<forall>s. body this ''error_description'' = Some (JString s) \<longrightarrow> fst (errorDescription this w) = Inr s) \<and>
   ((\<nexists>s. body this ''error_description'' = Some (JString s)) \<longrightarrow>
      fst (errorDescription this w) = Inl (MissingOrInvalidField ''error_description''))"
  by (auto simp add: hasErrorDescription_eq errorDescription_eq split: option.splits js_value.splits)

lemma has_get_error_uri:
  "fst (hasErrorURI this w) = Inr (\<exists>s. body this ''error_uri'' = Some (JString s)) \<and>
   (\<forall>s. body this ''error_uri'' = Some (JString s) \<longrightarrow> fst (errorURI this w) = Inr s) \<and>
   ((\<nexists>s. body this ''error_uri'' = Some (JString s)) \<longrightarrow>
      fst (errorURI this w) = Inl (MissingOrInvalidField ''error_uri''))"
  by (auto simp add: hasErrorURI_eq errorURI_eq split: option.splits js_value.splits)

lemma has_get_state:
  "fst (hasState this w) = Inr (\<exists>s. body this ''state'' = Some (JString s)) \<and>
   (\<forall>s. body this ''state'' = Some (JString s) \<longrightarrow> fst (state this w) = Inr s) \<and>
   ((\<nexists>s. body this ''state'' = Some (JString s)) \<longrightarrow>
      fst (state this w) = Inl (MissingOrInvalidField ''state''))"
  by (auto simp add: hasState_eq state_eq split: option.splits js_value.splits)

text \<open>
  Claim C1. For each field \<open>F\<close> of \<^verbatim>\<open>error\<close>, \<^verbatim>\<open>error_description\<close>,
  \<^verbatim>\<open>error_uri\<close> and \<^verbatim>\<open>state\<close>: the has-accessor returns true exactly when the
  payload has the key \<open>F\<close> with a string as its value; then the get-accessor returns
  that stored string as it is; otherwise the get-accessor throws the error
  \<open>MissingOrInvalidField F\<close>.
\<close>

theorem base_fields_has_get:
  fixes this :: "'x OAuth2RequestResult_scheme"
  shows "\<forall>(F, has, get) \<in> set [(''error'', hasErrorCode, errorCode),
            (''error_description'', hasErrorDescription, errorDescription),
            (''error_uri'', hasErrorURI, errorURI),
            (''state'', hasState, state)].
          fst (has this w) = Inr (\<exists>s. body this F = Some (JString s)) \<and>
          (\<forall>s. body this F = Some (JString s) \<longrightarrow> fst (get this w) = Inr s) \<and>
          ((\<nexists>s. body this F = Some (JString s)) \<longrightarrow>
             fst (get this w) = Inl (MissingOrInvalidField F))"
  using has_get_error[of this w] has_get_error_description[of this w]
    has_get_error_uri[of this w] has_get_state[of this w]
  by simp

text \<open>
  On \<^verbatim>\<open>{error: "invalid_grant", state: 7}\<close>: the error code is present and
  returned, the state is present with the wrong type and the error URI is absent.
\<close>

theorem base_fields_has_get_witness:
  "fst (hasErrorCode \<lparr>body = [''error'' \<mapsto> JString ''invalid_grant'', ''state'' \<mapsto> JNumber (Finite 7)]\<rparr>
         \<lparr>clock = 0, clock_reads = 0\<rparr>) = Inr True \<and>
   fst (errorCode \<lparr>body = [''error'' \<mapsto> JString ''invalid_grant'', ''state'' \<mapsto> JNumber (Finite 7)]\<rparr>
         \<lparr>clock = 0, clock_reads = 0\<rparr>) = Inr ''invalid_grant'' \<and>
   fst (hasState \<lparr>body = [''error'' \<mapsto> JString ''invalid_grant'', ''state'' \<mapsto> JNumber (Finite 7)]\<rparr>
         \<lparr>clock = 0, clock_reads = 0\<rparr>) = Inr False \<and>
   fst (state \<lparr>body = [''error'' \<mapsto> JString ''invalid_grant'', ''state'' \<mapsto> JNumber (Finite 7)]\<rparr>
         \<lparr>clock = 0, clock_reads = 0\<rparr>) = Inl (Error ''Missing or invalid 'state' field'') \<and>
   fst (hasErrorURI \<lparr>body = [''error'' \<mapsto> JString ''invalid_grant'', ''state'' \<mapsto> JNumber (Finite 7)]\<rparr>
         \<lparr>clock = 0, clock_reads = 0\<rparr>) = Inr False \<and>
   fst (errorURI \<lparr>body = [''error'' \<mapsto> JString ''invalid_grant'', ''state'' \<mapsto> JNumber (Finite 7)]\<rparr>
         \<lparr>clock = 0, clock_reads = 0\<rparr>) = Inl (Error ''Missing or invalid 'error_uri' field'')"
  using base_fields_has_get [of "\<lparr>body = [''error'' \<mapsto> JString ''invalid_grant'', ''state'' \<mapsto> JNumber (Finite 7)]\<rparr>"
      "\<lparr>clock = 0, clock_reads = 0\<rparr>"]
  by (simp add: MissingOrInvalidField_def)

section \<open>Construction and the has-accessors never throw\<close>

text \<open>
  Claim C7. Each of the six has-accessors returns a boolean on every payload, whatever
  is present, absent or of the wrong type: none of them throws.
\<close>

theorem has_accessors_total:
  fixes this :: "'x OAuth2RequestResult_scheme" and tok :: TokenRequestResult
  shows "(\<exists>b. fst (hasErrorCode this w) = Inr b) \<and>
         (\<exists>b. fst (hasErrorDescription this w) = Inr b) \<and>
         (\<exists>b. fst (hasErrorURI this w) = Inr b) \<and>
         (\<exists>b. fst (hasState this w) = Inr b) \<and>
         (\<exists>b. fst (hasRefreshToken tok w) = Inr b) \<and>
         (\<exists>b. fst (hasScopes tok w) = Inr b)"
  by (simp add: hasErrorCode_def hasErrorDescription_def hasErrorURI_def hasState_def
      hasRefreshToken_def hasScopes_def)

text \<open>
  Claim C6. Constructing any of the three wrappers succeeds on every payload, with the
  payload stored as it is and the world untouched; errors can only come from the
  accessors.
\<close>

theorem construction_succeeds:
  "new_OAuth2RequestResult b w = (Inr \<lparr>body = b\<rparr>, w) \<and>
   new_TokenRequestResult b w = (Inr \<lparr>body = b, \<dots> = TokenRequestResult_class\<rparr>, w) \<and>
   new_DeviceAuthorizationRequestResult b w =
     (Inr \<lparr>body = b, \<dots> = DeviceAuthorizationRequestResult_class\<rparr>, w)"
  by (simp add: new_OAuth2RequestResult_def new_TokenRequestResult_def
      new_DeviceAuthorizationRequestResult_def)

section \<open>The polling interval\<close>

text \<open>
  Claim C5. \<^verbatim>\<open>intervalSeconds()\<close> returns the default 5 when the key
  \<^verbatim>\<open>interval\<close> is absent, the stored number when the value is a number, and throws
  \<open>InvalidField ''interval''\<close> when the key is present with any other value; that error
  is not the \<open>MissingOrInvalidField\<close> one.
\<close>

theorem intervalSeconds_policy:
  "(body this ''interval'' = None \<longrightarrow> fst (intervalSeconds this w) = Inr (Finite 5)) \<and>
   (\<forall>n. body this ''interval'' = Some (JNumber n) \<longrightarrow> fst (intervalSeconds this w) = Inr n) \<and>
   (\<forall>v. body this ''interval'' = Some v \<and> (\<nexists>n. v = JNumber n) \<longrightarrow>
        fst (intervalSeconds this w) = Inl (InvalidField ''interval'')) \<and>
   InvalidField ''interval'' \<noteq> MissingOrInvalidField ''interval''"
  by (auto simp add: intervalSeconds_eq InvalidField_def MissingOrInvalidField_def
      split: js_value.splits)

text \<open>
  The three payloads \<^verbatim>\<open>{}\<close>, \<^verbatim>\<open>{interval: 10}\<close> and
  \<^verbatim>\<open>{interval: "10"}\<close>.
\<close>

theorem intervalSeconds_policy_witness:
  "fst (intervalSeconds \<lparr>body = Map.empty, \<dots> = DeviceAuthorizationRequestResult_class\<rparr>
         \<lparr>clock = 0, clock_reads = 0\<rparr>) = Inr (Finite 5) \<and>
   fst (intervalSeconds \<lparr>body = [''interval'' \<mapsto> JNumber (Finite 10)], \<dots> = DeviceAuthorizationRequestResult_class\<rparr>
         \<lparr>clock = 0, clock_reads = 0\<rparr>) = Inr (Finite 10) \<and>
   fst (intervalSeconds \<lparr>body = [''interval'' \<mapsto> JString ''10''], \<dots> = DeviceAuthorizationRequestResult_class\<rparr>
         \<lparr>clock = 0, clock_reads = 0\<rparr>) = Inl (Error ''Invalid 'interval' field'')"
  using intervalSeconds_policy [of "\<lparr>body = Map.empty, \<dots> = DeviceAuthorizationRequestResult_class\<rparr>" "\<lparr>clock = 0, clock_reads = 0\<rparr>"]
    intervalSeconds_policy [of "\<lparr>body = [''interval'' \<mapsto> JNumber (Finite 10)], \<dots> = DeviceAuthorizationRequestResult_class\<rparr>" "\<lparr>clock = 0, clock_reads = 0\<rparr>"]
    intervalSeconds_policy [of "\<lparr>body = [''interval'' \<mapsto> JString ''10''], \<dots> = DeviceAuthorizationRequestResult_class\<rparr>" "\<lparr>clock = 0, clock_reads = 0\<rparr>"]
  by (simp add: InvalidField_def)

section \<open>Splitting the scope string\<close>

lemma split_on_not_Nil: "split_on c s \<noteq> []"
  by (induction s) (auto split: list.splits)

lemma join_split_on: "join [c] (split_on c s) = s"
proof (induction s)
  case Nil
  then show ?case by simp
next
  case (Cons x xs)
  obtain p ps where ps: "split_on c xs = p # ps"
    using split_on_not_Nil[of c xs] by (cases "split_on c xs") auto
  with Cons show ?case by (cases ps) auto
qed

lemma split_on_pieces: "x \<in> set (split_on c s) \<Longrightarrow> c \<notin> set x"
  by (induction s arbitrary: x) (auto split: if_splits list.splits)

lemma length_split_on: "length (split_on c s) = Suc (count_list s c)"
  by (induction s) (auto split: list.splits simp: split_on_not_Nil)

lemma split_on_append_piece:
  "c \<notin> set p \<Longrightarrow> split_on c (p @ c # s) = p # split_on c s"
  by (induction p) auto

lemma split_on_piece: "c \<notin> set p \<Longrightarrow> split_on c p = [p]"
  by (induction p) auto

lemma split_on_join:
  "ys \<noteq> [] \<Longrightarrow> \<forall>y \<in> set ys. c \<notin> set y \<Longrightarrow> split_on c (join [c] ys) = ys"
  by (induction "[c]" ys rule: join.induct) (simp_all add: split_on_piece split_on_append_piece)

text \<open>
  Claim C4. When the value of \<^verbatim>\<open>scope\<close> is a string \<open>s\<close>, \<^verbatim>\<open>scopes()\<close>
  returns the pieces of \<open>s\<close> between its spaces, in order: joined by single spaces
  they give \<open>s\<close> back (nothing is trimmed or dropped), no piece holds a space, there is
  one piece more than there are spaces, and no other such list of pieces exists. So
  \<^verbatim>\<open>"read write"\<close> gives \<^verbatim>\<open>["read", "write"]\<close>, the empty string gives
  \<^verbatim>\<open>[""]\<close> and \<^verbatim>\<open>"a  b"\<close> gives \<^verbatim>\<open>["a", "", "b"]\<close>. When
  \<^verbatim>\<open>scope\<close> is absent or not a string, \<^verbatim>\<open>scopes()\<close> throws
  \<open>MissingOrInvalidField ''scope''\<close>.
\<close>

theorem scopes_split:
  "(body this ''scope'' = Some (JString s) \<longrightarrow>
      fst (scopes this w) = Inr (split_on (CHR '' '') s) \<and>
      join '' '' (split_on (CHR '' '') s) = s \<and>
      (\<forall>p \<in> set (split_on (CHR '' '') s). CHR '' '' \<notin> set p) \<and>
      length (split_on (CHR '' '') s) = Suc (count_list s (CHR '' '')) \<and>
      (\<forall>qs. qs \<noteq> [] \<and> (\<forall>q \<in> set qs. CHR '' '' \<notin> set q) \<and> join '' '' qs = s \<longrightarrow>
         qs = split_on (CHR '' '') s)) \<and>
   (body this ''scope'' = Some (JString ''read write'') \<longrightarrow>
      fst (scopes this w) = Inr [''read'', ''write'']) \<and>
   (body this ''scope'' = Some (JString '''') \<longrightarrow> fst (scopes this w) = Inr ['''']) \<and>
   (body this ''scope'' = Some (JString ''a  b'') \<longrightarrow>
      fst (scopes this w) = Inr [''a'', '''', ''b'']) \<and>
   ((\<nexists>s. body this ''scope'' = Some (JString s)) \<longrightarrow>
      fst (scopes this w) = Inl (MissingOrInvalidField ''scope''))"
proof (intro conjI impI)
  assume "body this ''scope'' = Some (JString s)"
  then show "fst (scopes this w) = Inr (split_on (CHR '' '') s)"
    by (simp add: scopes_eq)
next
  show "join '' '' (split_on (CHR '' '') s) = s"
    by (rule join_split_on)
next
  show "\<forall>p \<in> set (split_on (CHR '' '') s). CHR '' '' \<notin> set p"
    by (intro ballI) (rule split_on_pieces)
next
  show "length (split_on (CHR '' '') s) = Suc (count_list s (CHR '' ''))"
    by (rule length_split_on)
next
  show "\<forall>qs. qs \<noteq> [] \<and> (\<forall>q \<in> set qs. CHR '' '' \<notin> set q) \<and> join '' '' qs = s \<longrightarrow>
      qs = split_on (CHR '' '') s"
  proof (intro allI impI)
    fix qs
    assume q: "qs \<noteq> [] \<and> (\<forall>q \<in> set qs. CHR '' '' \<notin> set q) \<and> join '' '' qs = s"
    then have "split_on (CHR '' '') (join [CHR '' ''] qs) = qs"
      by (intro split_on_join) simp_all
    with q show "qs = split_on (CHR '' '') s" by simp
  qed
next
  assume "body this ''scope'' = Some (JString ''read write'')"
  then show "fst (scopes this w) = Inr [''read'', ''write'']"
    by (simp add: scopes_eq)
next
  assume "body this ''scope'' = Some (JString '''')"
  then show "fst (scopes this w) = Inr ['''']"
    by (simp add: scopes_eq)
next
  assume "body this ''scope'' = Some (JString ''a  b'')"
  then show "fst (scopes this w) = Inr [''a'', '''', ''b'']"
    by (simp add: scopes_eq)
next
  assume "\<nexists>s. body this ''scope'' = Some (JString s)"
  then show "fst (scopes this w) = Inl (MissingOrInvalidField ''scope'')"
    by (auto simp add: scopes_eq split: option.splits js_value.splits)
qed

text \<open>
  The three payloads of the claim, a payload whose \<^verbatim>\<open>scope\<close> is a number and the
  payload \<^verbatim>\<open>{}\<close>.
\<close>

theorem scopes_split_witness:
  "fst (scopes \<lparr>body = [''scope'' \<mapsto> JString ''read write''], \<dots> = TokenRequestResult_class\<rparr>
         \<lparr>clock = 0, clock_reads = 0\<rparr>) = Inr [''read'', ''write''] \<and>
   join '' '' [''read'', ''write''] = ''read write'' \<and>
   fst (scopes \<lparr>body = [''scope'' \<mapsto> JString ''''], \<dots> = TokenRequestResult_class\<rparr>
         \<lparr>clock = 0, clock_reads = 0\<rparr>) = Inr [''''] \<and>
   fst (scopes \<lparr>body = [''scope'' \<mapsto> JString ''a  b''], \<dots> = TokenRequestResult_class\<rparr>
         \<lparr>clock = 0, clock_reads = 0\<rparr>) = Inr [''a'', '''', ''b''] \<and>
   fst (scopes \<lparr>body = [''scope'' \<mapsto> JNumber (Finite 1)], \<dots> = TokenRequestResult_class\<rparr>
         \<lparr>clock = 0, clock_reads = 0\<rparr>) = Inl (Error ''Missing or invalid 'scope' field'') \<and>
   fst (scopes \<lparr>body = Map.empty, \<dots> = TokenRequestResult_class\<rparr>
         \<lparr>clock = 0, clock_reads = 0\<rparr>) = Inl (Error ''Missing or invalid 'scope' field'')"
proof -
  let ?w = "\<lparr>clock = 0, clock_reads = 0\<rparr>"
  have a: "fst (scopes \<lparr>body = [''scope'' \<mapsto> JString ''read write''], \<dots> = TokenRequestResult_class\<rparr> ?w)
      = Inr [''read'', ''write'']"
    using scopes_split [of "\<lparr>body = [''scope'' \<mapsto> JString ''read write''], \<dots> = TokenRequestResult_class\<rparr>"
        "''read write''" ?w]
    by simp
  have b: "fst (scopes \<lparr>body = [''scope'' \<mapsto> JString ''''], \<dots> = TokenRequestResult_class\<rparr> ?w)
      = Inr ['''']"
    using scopes_split [of "\<lparr>body = [''scope'' \<mapsto> JString ''''], \<dots> = TokenRequestResult_class\<rparr>"
        "''''" ?w]
    by simp
  have c: "fst (scopes \<lparr>body = [''scope'' \<mapsto> JString ''a  b''], \<dots> = TokenRequestResult_class\<rparr> ?w)
      = Inr [''a'', '''', ''b'']"
    using scopes_split [of "\<lparr>body = [''scope'' \<mapsto> JString ''a  b''], \<dots> = TokenRequestResult_class\<rparr>"
        "''a  b''" ?w]
    by simp
  have d: "fst (scopes \<lparr>body = [''scope'' \<mapsto> JNumber (Finite 1)], \<dots> = TokenRequestResult_class\<rparr> ?w)
      = Inl (Error ''Missing or invalid 'scope' field'')"
    using scopes_split [of "\<lparr>body = [''scope'' \<mapsto> JNumber (Finite 1)], \<dots> = TokenRequestResult_class\<rparr>"
        "''''" ?w]
    by (simp add: MissingOrInvalidField_def)
  have e: "fst (scopes \<lparr>body = Map.empty, \<dots> = TokenRequestResult_class\<rparr> ?w)
      = Inl (Error ''Missing or invalid 'scope' field'')"
    using scopes_split [of "\<lparr>body = Map.empty, \<dots> = TokenRequestResult_class\<rparr>" "''''" ?w]
    by (simp add: MissingOrInvalidField_def)
  from a b c d e show ?thesis by simp
qed

text \<open>
  Claim C9. When the value of \<^verbatim>\<open>scope\<close> is a string, \<^verbatim>\<open>scopes()\<close> returns at
  least one piece; whatever a successful call returns is not the empty list; the empty
  string gives the one piece \<^verbatim>\<open>""\<close>.
\<close>

theorem scopes_never_empty:
  "(body this ''scope'' = Some (JString s) \<longrightarrow>
      (\<exists>pieces. fst (scopes this w) = Inr pieces \<and> pieces \<noteq> [])) \<and>
   (fst (scopes this w) = Inr pieces' \<longrightarrow> pieces' \<noteq> []) \<and>
   (body this ''scope'' = Some (JString '''') \<longrightarrow> fst (scopes this w) = Inr [''''])"
  by (auto simp add: scopes_eq split_on_not_Nil split: option.splits js_value.splits)

text \<open>The payload \<^verbatim>\<open>{scope: ""}\<close>.\<close>

theorem scopes_never_empty_witness:
  "fst (scopes \<lparr>body = [''scope'' \<mapsto> JString ''''], \<dots> = TokenRequestResult_class\<rparr>
         \<lparr>clock = 0, clock_reads = 0\<rparr>) = Inr [''''] \<and>
   [''''] \<noteq> ([] :: string list)"
  using scopes_never_empty [of "\<lparr>body = [''scope'' \<mapsto> JString ''''], \<dots> = TokenRequestResult_class\<rparr>"
      "''''" "\<lparr>clock = 0, clock_reads = 0\<rparr>" "['''']"]
  by simp

section \<open>Expiry\<close>

text \<open>
  When \<open>expires_in * 1000\<close> is a whole number \<open>m\<close> of milliseconds of magnitude at most
  \<open>2 ^ 53\<close>, the product and the sum with the clock reading are computed exactly.
\<close>

lemma expiry_whole_milliseconds:
  assumes "x * 1000 = of_int m" and "\<bar>m\<bar> \<le> 2 ^ 53" and "\<bar>t + m\<bar> \<le> 2 ^ 53"
  shows "new_Date (js_add (Finite (of_int t)) (js_mul (Finite x) (Finite 1000))) =
           (if 8640000000000000 < \<bar>t + m\<bar> then Date NaN
            else Date (Finite (of_int t + x * 1000)))"
proof -
  have "js_mul (Finite x) (Finite 1000) = round_double (of_int m)"
    by (simp only: js_mul.simps assms(1))
  then have mul: "js_mul (Finite x) (Finite 1000) = Finite (of_int m)"
    by (simp only: round_double_of_int[OF assms(2)])
  have e: "(of_int (t + m) :: rat) = of_int t + x * 1000"
    by (simp only: of_int_add assms(1))
  have "new_Date (js_add (Finite (of_int t)) (Finite (of_int m))) =
          (if 8640000000000000 < \<bar>t + m\<bar> then Date NaN else Date (Finite (of_int (t + m))))"
    by (simp only: js_add_of_int[OF assms(3)] new_Date_of_int)
  then show ?thesis
    by (simp only: mul e)
qed

lemma accessTokenExpiresAt_in_range:
  assumes "body tok ''expires_in'' = Some (JNumber (Finite x))" and "x * 1000 = of_int m"
    and "\<bar>m\<bar> \<le> 2 ^ 53" and "\<bar>clock w + m\<bar> \<le> 8640000000000000"
  shows "accessTokenExpiresAt tok w =
           (Inr (Date (Finite (of_int (clock w) + x * 1000))),
            tok, w\<lparr>clock_reads := Suc (clock_reads w)\<rparr>)"
proof -
  have le: "\<bar>clock w + m\<bar> \<le> 2 ^ 53" using assms(4) by simp
  have n: "\<not> 8640000000000000 < \<bar>clock w + m\<bar>" using assms(4) by simp
  from expiry_whole_milliseconds[OF assms(2,3) le] n
  have "new_Date (js_add (Finite (of_int (clock w))) (js_mul (Finite x) (Finite 1000))) =
          Date (Finite (of_int (clock w) + x * 1000))"
    by (simp only: if_False)
  then show ?thesis
    by (simp only: accessTokenExpiresAt_eq assms(1) option.case js_value.case number.case)
qed

lemma accessTokenExpiresAt_out_of_range:
  assumes "body tok ''expires_in'' = Some (JNumber (Finite x))" and "x * 1000 = of_int m"
    and "\<bar>m\<bar> \<le> 2 ^ 53" and "\<bar>clock w + m\<bar> \<le> 2 ^ 53"
    and "8640000000000000 < \<bar>clock w + m\<bar>"
  shows "accessTokenExpiresAt tok w = (Inr (Date NaN), tok, w\<lparr>clock_reads := Suc (clock_reads w)\<rparr>)"
proof -
  from expiry_whole_milliseconds[OF assms(2,3,4)] assms(5)
  have "new_Date (js_add (Finite (of_int (clock w))) (js_mul (Finite x) (Finite 1000))) =
          Date NaN"
    by (simp only: if_True)
  then show ?thesis
    by (simp only: accessTokenExpiresAt_eq assms(1) option.case js_value.case number.case)
qed

lemma codesExpireAt_in_range:
  assumes "body dev ''expires_in'' = Some (JNumber (Finite x))" and "x * 1000 = of_int m"
    and "\<bar>m\<bar> \<le> 2 ^ 53" and "\<bar>clock w + m\<bar> \<le> 8640000000000000"
  shows "codesExpireAt dev w =
           (Inr (Date (Finite (of_int (clock w) + x * 1000))),
            dev, w\<lparr>clock_reads := Suc (clock_reads w)\<rparr>)"
proof -
  have le: "\<bar>clock w + m\<bar> \<le> 2 ^ 53" using assms(4) by simp
  have n: "\<not> 8640000000000000 < \<bar>clock w + m\<bar>" using assms(4) by simp
  from expiry_whole_milliseconds[OF assms(2,3) le] n
  have "new_Date (js_add (Finite (of_int (clock w))) (js_mul (Finite x) (Finite 1000))) =
          Date (Finite (of_int (clock w) + x * 1000))"
    by (simp only: if_False)
  then show ?thesis
    by (simp only: codesExpireAt_eq assms(1) option.case js_value.case number.case)
qed

lemma codesExpireAt_out_of_range:
  assumes "body dev ''expires_in'' = Some (JNumber (Finite x))" and "x * 1000 = of_int m"
    and "\<bar>m\<bar> \<le> 2 ^ 53" and "\<bar>clock w + m\<bar> \<le> 2 ^ 53"
    and "8640000000000000 < \<bar>clock w + m\<bar>"
  shows "codesExpireAt dev w = (Inr (Date NaN), dev, w\<lparr>clock_reads := Suc (clock_reads w)\<rparr>)"
proof -
  from expiry_whole_milliseconds[OF assms(2,3,4)] assms(5)
  have "new_Date (js_add (Finite (of_int (clock w))) (js_mul (Finite x) (Finite 1000))) =
          Date NaN"
    by (simp only: if_True)
  then show ?thesis
    by (simp only: codesExpireAt_eq assms(1) option.case js_value.case number.case)
qed

text \<open>
  Claim C3, as the code has it. When \<^verbatim>\<open>expires_in\<close> is absent or not a number,
  \<^verbatim>\<open>accessTokenExpiresAt()\<close> and \<^verbatim>\<open>codesExpireAt()\<close> throw
  \<open>MissingOrInvalidField ''expires_in''\<close>, whatever the clock shows. The clock has been
  read once by then: \<^verbatim>\<open>Date.now()\<close> is the left operand of the sum and is
  evaluated before the call that throws.
\<close>

theorem expiresAt_missing_expires_in:
  "((\<nexists>n. body tok ''expires_in'' = Some (JNumber n)) \<longrightarrow>
      accessTokenExpiresAt tok w =
        (Inl (MissingOrInvalidField ''expires_in''), tok, w\<lparr>clock_reads := Suc (clock_reads w)\<rparr>)) \<and>
   ((\<nexists>n. body dev ''expires_in'' = Some (JNumber n)) \<longrightarrow>
      codesExpireAt dev w =
        (Inl (MissingOrInvalidField ''expires_in''), dev, w\<lparr>clock_reads := Suc (clock_reads w)\<rparr>))"
  by (auto simp add: accessTokenExpiresAt_eq codesExpireAt_eq split: option.splits js_value.splits)

text \<open>The payloads \<^verbatim>\<open>{expires_in: "3600"}\<close> and \<^verbatim>\<open>{}\<close>.\<close>

theorem expiresAt_missing_expires_in_witness:
  "accessTokenExpiresAt \<lparr>body = [''expires_in'' \<mapsto> JString ''3600''], \<dots> = TokenRequestResult_class\<rparr>
       \<lparr>clock = 1700000000000, clock_reads = 0\<rparr> =
     (Inl (Error ''Missing or invalid 'expires_in' field''),
      \<lparr>body = [''expires_in'' \<mapsto> JString ''3600''], \<dots> = TokenRequestResult_class\<rparr>,
      \<lparr>clock = 1700000000000, clock_reads = 1\<rparr>) \<and>
   codesExpireAt \<lparr>body = Map.empty, \<dots> = DeviceAuthorizationRequestResult_class\<rparr>
       \<lparr>clock = 1700000000000, clock_reads = 0\<rparr> =
     (Inl (Error ''Missing or invalid 'expires_in' field''),
      \<lparr>body = Map.empty, \<dots> = DeviceAuthorizationRequestResult_class\<rparr>,
      \<lparr>clock = 1700000000000, clock_reads = 1\<rparr>)"
  using expiresAt_missing_expires_in [of "\<lparr>body = [''expires_in'' \<mapsto> JString ''3600''], \<dots> = TokenRequestResult_class\<rparr>"
      "\<lparr>clock = 1700000000000, clock_reads = 0\<rparr>"
      "\<lparr>body = Map.empty, \<dots> = DeviceAuthorizationRequestResult_class\<rparr>"]
  by (simp add: MissingOrInvalidField_def)

text \<open>
  The failure does not come before every read of the clock: on the payload
  \<^verbatim>\<open>{}\<close> both methods throw with one read of the clock made.
\<close>

theorem clock_read_before_failure_counterexample:
  "fst (accessTokenExpiresAt \<lparr>body = Map.empty, \<dots> = TokenRequestResult_class\<rparr>
          \<lparr>clock = 1700000000000, clock_reads = 0\<rparr>) =
     Inl (Error ''Missing or invalid 'expires_in' field'') \<and>
   clock_reads (snd (snd (accessTokenExpiresAt \<lparr>body = Map.empty, \<dots> = TokenRequestResult_class\<rparr>
          \<lparr>clock = 1700000000000, clock_reads = 0\<rparr>))) = 1 \<and>
   fst (codesExpireAt \<lparr>body = Map.empty, \<dots> = DeviceAuthorizationRequestResult_class\<rparr>
          \<lparr>clock = 1700000000000, clock_reads = 0\<rparr>) =
     Inl (Error ''Missing or invalid 'expires_in' field'') \<and>
   clock_reads (snd (snd (codesExpireAt \<lparr>body = Map.empty, \<dots> = DeviceAuthorizationRequestResult_class\<rparr>
          \<lparr>clock = 1700000000000, clock_reads = 0\<rparr>))) = 1"
  by (simp add: accessTokenExpiresAt_def codesExpireAt_def Date_now_def
      accessTokenExpiresInSeconds_def codesExpireInSeconds_def in_op_def)

text \<open>
  Claim C10. \<^verbatim>\<open>accessTokenExpiresInSeconds()\<close> and \<^verbatim>\<open>codesExpireInSeconds()\<close>
  return the stored number \<open>v\<close> as it is, whatever number it is (zero, negative,
  fractional, infinite or NaN): no range is checked. So with \<^verbatim>\<open>expires_in\<close> a
  number \<open>x \<le> 0\<close> of seconds (a whole number \<open>m\<close> of milliseconds),
  \<^verbatim>\<open>accessTokenExpiresAt()\<close> and \<^verbatim>\<open>codesExpireAt()\<close> return the timestamp of the
  clock reading plus \<open>x\<close> seconds, which is the clock reading itself when \<open>x = 0\<close> and
  earlier than the clock reading when \<open>x < 0\<close>.
\<close>

theorem expires_in_unvalidated:
  "(body tok ''expires_in'' = Some (JNumber v) \<longrightarrow>
      fst (accessTokenExpiresInSeconds tok w) = Inr v) \<and>
   (body dev ''expires_in'' = Some (JNumber v') \<longrightarrow>
      fst (codesExpireInSeconds dev w) = Inr v') \<and>
   (body tok ''expires_in'' = Some (JNumber (Finite x)) \<and> x \<le> 0 \<and> x * 1000 = of_int m \<and>
        \<bar>m\<bar> \<le> 2 ^ 53 \<and> \<bar>clock w + m\<bar> \<le> 8640000000000000 \<longrightarrow>
      fst (accessTokenExpiresAt tok w) = Inr (Date (Finite (of_int (clock w) + x * 1000))) \<and>
      of_int (clock w) + x * 1000 \<le> of_int (clock w) \<and>
      (x = 0 \<longrightarrow> fst (accessTokenExpiresAt tok w) = Inr (Date (Finite (of_int (clock w))))) \<and>
      (x < 0 \<longrightarrow> of_int (clock w) + x * 1000 < of_int (clock w))) \<and>
   (body dev ''expires_in'' = Some (JNumber (Finite x')) \<and> x' \<le> 0 \<and> x' * 1000 = of_int m' \<and>
        \<bar>m'\<bar> \<le> 2 ^ 53 \<and> \<bar>clock w + m'\<bar> \<le> 8640000000000000 \<longrightarrow>
      fst (codesExpireAt dev w) = Inr (Date (Finite (of_int (clock w) + x' * 1000))) \<and>
      of_int (clock w) + x' * 1000 \<le> of_int (clock w) \<and>
      (x' = 0 \<longrightarrow> fst (codesExpireAt dev w) = Inr (Date (Finite (of_int (clock w))))) \<and>
      (x' < 0 \<longrightarrow> of_int (clock w) + x' * 1000 < of_int (clock w)))"
proof (intro conjI impI)
  assume "body tok ''expires_in'' = Some (JNumber v)"
  then show "fst (accessTokenExpiresInSeconds tok w) = Inr v"
    by (simp add: accessTokenExpiresInSeconds_eq)
next
  assume "body dev ''expires_in'' = Some (JNumber v')"
  then show "fst (codesExpireInSeconds dev w) = Inr v'"
    by (simp add: codesExpireInSeconds_eq)
next
  assume a: "body tok ''expires_in'' = Some (JNumber (Finite x)) \<and> x \<le> 0 \<and> x * 1000 = of_int m \<and>
    \<bar>m\<bar> \<le> 2 ^ 53 \<and> \<bar>clock w + m\<bar> \<le> 8640000000000000"
  then have r: "accessTokenExpiresAt tok w =
      (Inr (Date (Finite (of_int (clock w) + x * 1000))), tok, w\<lparr>clock_reads := Suc (clock_reads w)\<rparr>)"
    by (intro accessTokenExpiresAt_in_range[of tok x m w]) blast+
  show "fst (accessTokenExpiresAt tok w) = Inr (Date (Finite (of_int (clock w) + x * 1000)))"
    by (simp only: r fst_conv)
  show "of_int (clock w) + x * 1000 \<le> of_int (clock w)" using a by simp
  {
    assume "x = 0"
    then show "fst (accessTokenExpiresAt tok w) = Inr (Date (Finite (of_int (clock w))))"
      by (simp add: r)
  }
  {
    assume "x < 0"
    then show "of_int (clock w) + x * 1000 < of_int (clock w)" by simp
  }
next
  assume a: "body dev ''expires_in'' = Some (JNumber (Finite x')) \<and> x' \<le> 0 \<and> x' * 1000 = of_int m' \<and>
    \<bar>m'\<bar> \<le> 2 ^ 53 \<and> \<bar>clock w + m'\<bar> \<le> 8640000000000000"
  then have r: "codesExpireAt dev w =
      (Inr (Date (Finite (of_int (clock w) + x' * 1000))), dev, w\<lparr>clock_reads := Suc (clock_reads w)\<rparr>)"
    by (intro codesExpireAt_in_range[of dev x' m' w]) blast+
  show "fst (codesExpireAt dev w) = Inr (Date (Finite (of_int (clock w) + x' * 1000)))"
    by (simp only: r fst_conv)
  show "of_int (clock w) + x' * 1000 \<le> of_int (clock w)" using a by simp
  {
    assume "x' = 0"
    then show "fst (codesExpireAt dev w) = Inr (Date (Finite (of_int (clock w))))"
      by (simp add: r)
  }
  {
    assume "x' < 0"
    then show "of_int (clock w) + x' * 1000 < of_int (clock w)" by simp
  }
qed

text \<open>
  The payloads \<^verbatim>\<open>{expires_in: -60}\<close> and \<^verbatim>\<open>{expires_in: 0}\<close> at the clock
  reading 1700000000000: the token expired a minute before the call, at 1699999940000,
  and the codes expire at the call.
\<close>

theorem expires_in_unvalidated_witness:
  "fst (accessTokenExpiresInSeconds \<lparr>body = [''expires_in'' \<mapsto> JNumber (Finite (- 60))], \<dots> = TokenRequestResult_class\<rparr>
         \<lparr>clock = 1700000000000, clock_reads = 0\<rparr>) = Inr (Finite (- 60)) \<and>
   fst (codesExpireInSeconds \<lparr>body = [''expires_in'' \<mapsto> JNumber (Finite 0)], \<dots> = DeviceAuthorizationRequestResult_class\<rparr>
         \<lparr>clock = 1700000000000, clock_reads = 0\<rparr>) = Inr (Finite 0) \<and>
   fst (accessTokenExpiresAt \<lparr>body = [''expires_in'' \<mapsto> JNumber (Finite (- 60))], \<dots> = TokenRequestResult_class\<rparr>
         \<lparr>clock = 1700000000000, clock_reads = 0\<rparr>) = Inr (Date (Finite 1699999940000)) \<and>
   (1699999940000 :: rat) < 1700000000000 \<and>
   fst (codesExpireAt \<lparr>body = [''expires_in'' \<mapsto> JNumber (Finite 0)], \<dots> = DeviceAuthorizationRequestResult_class\<rparr>
         \<lparr>clock = 1700000000000, clock_reads = 0\<rparr>) = Inr (Date (Finite 1700000000000))"
  using expires_in_unvalidated [of
      "\<lparr>body = [''expires_in'' \<mapsto> JNumber (Finite (- 60))], \<dots> = TokenRequestResult_class\<rparr>"
      "Finite (- 60)"
      "\<lparr>clock = 1700000000000, clock_reads = 0\<rparr>"
      "\<lparr>body = [''expires_in'' \<mapsto> JNumber (Finite 0)], \<dots> = DeviceAuthorizationRequestResult_class\<rparr>"
      "Finite 0" "- 60" "- 60000" 0 0]
  by simp

lemma half_millisecond:
  "new_Date (js_add (Finite 1700000000000) (js_mul (Finite (1 / 2048)) (Finite 1000))) =
     Date (Finite 1700000000000)"
  by code_simp

text \<open>
  Claim C2, as the code has it. When the value of \<^verbatim>\<open>expires_in\<close> is a number \<open>x\<close>
  of seconds that is a whole number \<open>m\<close> of milliseconds (of magnitude at most
  \<open>2 ^ 53\<close>) and the clock reading plus \<open>m\<close> milliseconds lies in the range of a Date
  (magnitude at most \<open>8.64e15\<close>), \<^verbatim>\<open>accessTokenExpiresAt()\<close> and
  \<^verbatim>\<open>codesExpireAt()\<close> return the timestamp of the clock reading at the call plus
  \<open>x\<close> seconds, and leave the receiver as it was: the clock is read at every call and
  nothing is cached. Beyond the range of a Date the result is an Invalid Date. With
  \<^verbatim>\<open>{expires_in: 3600}\<close>, a call and a second call on the same object one second
  later return timestamps one second apart.
\<close>

theorem expiresAt_now_plus_seconds:
  "(body tok ''expires_in'' = Some (JNumber (Finite x)) \<and> x * 1000 = of_int m \<and>
      \<bar>m\<bar> \<le> 2 ^ 53 \<and> \<bar>clock w + m\<bar> \<le> 8640000000000000 \<longrightarrow>
    accessTokenExpiresAt tok w =
      (Inr (Date (Finite (of_int (clock w) + x * 1000))),
       tok, w\<lparr>clock_reads := Suc (clock_reads w)\<rparr>)) \<and>
   (body dev ''expires_in'' = Some (JNumber (Finite x')) \<and> x' * 1000 = of_int m' \<and>
      \<bar>m'\<bar> \<le> 2 ^ 53 \<and> \<bar>clock w + m'\<bar> \<le> 8640000000000000 \<longrightarrow>
    codesExpireAt dev w =
      (Inr (Date (Finite (of_int (clock w) + x' * 1000))),
       dev, w\<lparr>clock_reads := Suc (clock_reads w)\<rparr>)) \<and>
   (body tok ''expires_in'' = Some (JNumber (Finite x)) \<and> x * 1000 = of_int m \<and>
      \<bar>m\<bar> \<le> 2 ^ 53 \<and> \<bar>clock w + m\<bar> \<le> 2 ^ 53 \<and>
      8640000000000000 < \<bar>clock w + m\<bar> \<longrightarrow>
    accessTokenExpiresAt tok w =
      (Inr (Date NaN), tok, w\<lparr>clock_reads := Suc (clock_reads w)\<rparr>)) \<and>
   (body dev ''expires_in'' = Some (JNumber (Finite x')) \<and> x' * 1000 = of_int m' \<and>
      \<bar>m'\<bar> \<le> 2 ^ 53 \<and> \<bar>clock w + m'\<bar> \<le> 2 ^ 53 \<and>
      8640000000000000 < \<bar>clock w + m'\<bar> \<longrightarrow>
    codesExpireAt dev w =
      (Inr (Date NaN), dev, w\<lparr>clock_reads := Suc (clock_reads w)\<rparr>)) \<and>
   (body tok ''expires_in'' = Some (JNumber (Finite 3600)) \<and>
      \<bar>clock w + 3600000\<bar> \<le> 8640000000000000 \<and> \<bar>clock w + 3601000\<bar> \<le> 8640000000000000 \<longrightarrow>
    (case accessTokenExpiresAt tok w of (r1, tok1, w1) \<Rightarrow>
       case accessTokenExpiresAt tok1 (w1\<lparr>clock := clock w1 + 1000\<rparr>) of (r2, tok2, w2) \<Rightarrow>
         r1 = Inr (Date (Finite (of_int (clock w + 3600000)))) \<and>
         r2 = Inr (Date (Finite (of_int (clock w + 3600000 + 1000))))))"
proof (intro conjI impI)
  assume "body tok ''expires_in'' = Some (JNumber (Finite x)) \<and> x * 1000 = of_int m \<and>
      \<bar>m\<bar> \<le> 2 ^ 53 \<and> \<bar>clock w + m\<bar> \<le> 8640000000000000"
  then show "accessTokenExpiresAt tok w =
      (Inr (Date (Finite (of_int (clock w) + x * 1000))),
       tok, w\<lparr>clock_reads := Suc (clock_reads w)\<rparr>)"
    by (intro accessTokenExpiresAt_in_range[of tok x m w]) blast+
next
  assume "body dev ''expires_in'' = Some (JNumber (Finite x')) \<and> x' * 1000 = of_int m' \<and>
      \<bar>m'\<bar> \<le> 2 ^ 53 \<and> \<bar>clock w + m'\<bar> \<le> 8640000000000000"
  then show "codesExpireAt dev w =
      (Inr (Date (Finite (of_int (clock w) + x' * 1000))),
       dev, w\<lparr>clock_reads := Suc (clock_reads w)\<rparr>)"
    by (intro codesExpireAt_in_range[of dev x' m' w]) blast+
next
  assume "body tok ''expires_in'' = Some (JNumber (Finite x)) \<and> x * 1000 = of_int m \<and>
      \<bar>m\<bar> \<le> 2 ^ 53 \<and> \<bar>clock w + m\<bar> \<le> 2 ^ 53 \<and>
      8640000000000000 < \<bar>clock w + m\<bar>"
  then show "accessTokenExpiresAt tok w =
      (Inr (Date NaN), tok, w\<lparr>clock_reads := Suc (clock_reads w)\<rparr>)"
    by (intro accessTokenExpiresAt_out_of_range[of tok x m w]) blast+
next
  assume "body dev ''expires_in'' = Some (JNumber (Finite x')) \<and> x' * 1000 = of_int m' \<and>
      \<bar>m'\<bar> \<le> 2 ^ 53 \<and> \<bar>clock w + m'\<bar> \<le> 2 ^ 53 \<and>
      8640000000000000 < \<bar>clock w + m'\<bar>"
  then show "codesExpireAt dev w =
      (Inr (Date NaN), dev, w\<lparr>clock_reads := Suc (clock_reads w)\<rparr>)"
    by (intro codesExpireAt_out_of_range[of dev x' m' w]) blast+
next
  assume a: "body tok ''expires_in'' = Some (JNumber (Finite 3600)) \<and>
      \<bar>clock w + 3600000\<bar> \<le> 8640000000000000 \<and> \<bar>clock w + 3601000\<bar> \<le> 8640000000000000"
  let ?w1 = "w\<lparr>clock_reads := Suc (clock_reads w)\<rparr>"
  let ?w' = "?w1\<lparr>clock := clock ?w1 + 1000\<rparr>"
  have b: "body tok ''expires_in'' = Some (JNumber (Finite 3600))"
    using a by simp
  have p: "(3600 :: rat) * 1000 = of_int 3600000" by simp
  have m: "\<bar>3600000 :: int\<bar> \<le> 2 ^ 53" by simp
  have c1: "\<bar>clock w + 3600000\<bar> \<le> 8640000000000000" using a by simp
  have "clock ?w' + 3600000 = clock w + 3601000" by simp
  then have c2: "\<bar>clock ?w' + 3600000\<bar> \<le> 8640000000000000" using a by presburger
  have r1: "accessTokenExpiresAt tok w = (Inr (Date (Finite (of_int (clock w) + 3600 * 1000))), tok, ?w1)"
    by (rule accessTokenExpiresAt_in_range[OF b p m c1])
  have r2: "accessTokenExpiresAt tok ?w' =
      (Inr (Date (Finite (of_int (clock ?w') + 3600 * 1000))), tok, ?w'\<lparr>clock_reads := Suc (clock_reads ?w')\<rparr>)"
    by (rule accessTokenExpiresAt_in_range[OF b p m c2])
  show "case accessTokenExpiresAt tok w of (r1, tok1, w1) \<Rightarrow>
       case accessTokenExpiresAt tok1 (w1\<lparr>clock := clock w1 + 1000\<rparr>) of (r2, tok2, w2) \<Rightarrow>
         r1 = Inr (Date (Finite (of_int (clock w + 3600000)))) \<and>
         r2 = Inr (Date (Finite (of_int (clock w + 3600000 + 1000))))"
    unfolding r1 prod.case r2 by simp
qed

text \<open>
  The payloads \<^verbatim>\<open>{expires_in: 3600}\<close> (at two clock readings one second apart),
  \<^verbatim>\<open>{expires_in: 0.5}\<close>, \<^verbatim>\<open>{expires_in: 3600.5}\<close> and
  \<^verbatim>\<open>{expires_in: 9000000000000}\<close>.
\<close>

theorem expiresAt_now_plus_seconds_witness:
  "accessTokenExpiresAt \<lparr>body = [''expires_in'' \<mapsto> JNumber (Finite 3600)], \<dots> = TokenRequestResult_class\<rparr>
       \<lparr>clock = 1700000000000, clock_reads = 0\<rparr> =
     (Inr (Date (Finite 1700003600000)),
      \<lparr>body = [''expires_in'' \<mapsto> JNumber (Finite 3600)], \<dots> = TokenRequestResult_class\<rparr>,
      \<lparr>clock = 1700000000000, clock_reads = 1\<rparr>) \<and>
   accessTokenExpiresAt \<lparr>body = [''expires_in'' \<mapsto> JNumber (Finite 3600)], \<dots> = TokenRequestResult_class\<rparr>
       \<lparr>clock = 1700000001000, clock_reads = 1\<rparr> =
     (Inr (Date (Finite 1700003601000)),
      \<lparr>body = [''expires_in'' \<mapsto> JNumber (Finite 3600)], \<dots> = TokenRequestResult_class\<rparr>,
      \<lparr>clock = 1700000001000, clock_reads = 2\<rparr>) \<and>
   codesExpireAt \<lparr>body = [''expires_in'' \<mapsto> JNumber (Finite (1 / 2))], \<dots> = DeviceAuthorizationRequestResult_class\<rparr>
       \<lparr>clock = 1700000000000, clock_reads = 0\<rparr> =
     (Inr (Date (Finite 1700000000500)),
      \<lparr>body = [''expires_in'' \<mapsto> JNumber (Finite (1 / 2))], \<dots> = DeviceAuthorizationRequestResult_class\<rparr>,
      \<lparr>clock = 1700000000000, clock_reads = 1\<rparr>) \<and>
   accessTokenExpiresAt \<lparr>body = [''expires_in'' \<mapsto> JNumber (Finite (7201 / 2))], \<dots> = TokenRequestResult_class\<rparr>
       \<lparr>clock = 1700000000000, clock_reads = 0\<rparr> =
     (Inr (Date (Finite 1700003600500)),
      \<lparr>body = [''expires_in'' \<mapsto> JNumber (Finite (7201 / 2))], \<dots> = TokenRequestResult_class\<rparr>,
      \<lparr>clock = 1700000000000, clock_reads = 1\<rparr>) \<and>
   accessTokenExpiresAt \<lparr>body = [''expires_in'' \<mapsto> JNumber (Finite 9000000000000)], \<dots> = TokenRequestResult_class\<rparr>
       \<lparr>clock = 1700000000000, clock_reads = 0\<rparr> =
     (Inr (Date NaN),
      \<lparr>body = [''expires_in'' \<mapsto> JNumber (Finite 9000000000000)], \<dots> = TokenRequestResult_class\<rparr>,
      \<lparr>clock = 1700000000000, clock_reads = 1\<rparr>) \<and>
   codesExpireAt \<lparr>body = [''expires_in'' \<mapsto> JNumber (Finite 9000000000000)], \<dots> = DeviceAuthorizationRequestResult_class\<rparr>
       \<lparr>clock = 1700000000000, clock_reads = 0\<rparr> =
     (Inr (Date NaN),
      \<lparr>body = [''expires_in'' \<mapsto> JNumber (Finite 9000000000000)], \<dots> = DeviceAuthorizationRequestResult_class\<rparr>,
      \<lparr>clock = 1700000000000, clock_reads = 1\<rparr>)"
  using expiresAt_now_plus_seconds [of
      "\<lparr>body = [''expires_in'' \<mapsto> JNumber (Finite 3600)], \<dots> = TokenRequestResult_class\<rparr>" 3600 3600000
      "\<lparr>clock = 1700000000000, clock_reads = 0\<rparr>"
      "\<lparr>body = [''expires_in'' \<mapsto> JNumber (Finite (1 / 2))], \<dots> = DeviceAuthorizationRequestResult_class\<rparr>"
      "1 / 2" 500]
    expiresAt_now_plus_seconds [of
      "\<lparr>body = [''expires_in'' \<mapsto> JNumber (Finite 3600)], \<dots> = TokenRequestResult_class\<rparr>" 3600 3600000
      "\<lparr>clock = 1700000001000, clock_reads = 1\<rparr>"
      "\<lparr>body = [''expires_in'' \<mapsto> JNumber (Finite (1 / 2))], \<dots> = DeviceAuthorizationRequestResult_class\<rparr>"
      "1 / 2" 500]
    expiresAt_now_plus_seconds [of
      "\<lparr>body = [''expires_in'' \<mapsto> JNumber (Finite (7201 / 2))], \<dots> = TokenRequestResult_class\<rparr>"
      "7201 / 2" 3600500
      "\<lparr>clock = 1700000000000, clock_reads = 0\<rparr>"
      "\<lparr>body = [''expires_in'' \<mapsto> JNumber (Finite (1 / 2))], \<dots> = DeviceAuthorizationRequestResult_class\<rparr>"
      "1 / 2" 500]
    expiresAt_now_plus_seconds [of
      "\<lparr>body = [''expires_in'' \<mapsto> JNumber (Finite 9000000000000)], \<dots> = TokenRequestResult_class\<rparr>"
      9000000000000 9000000000000000
      "\<lparr>clock = 1700000000000, clock_reads = 0\<rparr>"
      "\<lparr>body = [''expires_in'' \<mapsto> JNumber (Finite 9000000000000)], \<dots> = DeviceAuthorizationRequestResult_class\<rparr>"
      9000000000000 9000000000000000]
  by simp

text \<open>
  The timestamp is not the clock reading plus \<^verbatim>\<open>expires_in\<close> seconds for every
  number: with \<^verbatim>\<open>{expires_in: 9000000000000}\<close> the sum is beyond the range of a
  Date and the result is an Invalid Date; with \<^verbatim>\<open>{expires_in: 0.00048828125}\<close>
  (that is \<open>1 / 2048\<close>) the sum has a fraction of a millisecond, which
  \<^verbatim>\<open>new Date\<close> cuts off, and the result is the clock reading itself.
\<close>

theorem expiresAt_not_now_plus_seconds_counterexample:
  "fst (accessTokenExpiresAt \<lparr>body = [''expires_in'' \<mapsto> JNumber (Finite 9000000000000)], \<dots> = TokenRequestResult_class\<rparr>
          \<lparr>clock = 1700000000000, clock_reads = 0\<rparr>) = Inr (Date NaN) \<and>
   fst (accessTokenExpiresAt \<lparr>body = [''expires_in'' \<mapsto> JNumber (Finite 9000000000000)], \<dots> = TokenRequestResult_class\<rparr>
          \<lparr>clock = 1700000000000, clock_reads = 0\<rparr>) \<noteq>
     Inr (Date (Finite (1700000000000 + 9000000000000 * 1000))) \<and>
   fst (accessTokenExpiresAt \<lparr>body = [''expires_in'' \<mapsto> JNumber (Finite (1 / 2048))], \<dots> = TokenRequestResult_class\<rparr>
          \<lparr>clock = 1700000000000, clock_reads = 0\<rparr>) = Inr (Date (Finite 1700000000000)) \<and>
   fst (accessTokenExpiresAt \<lparr>body = [''expires_in'' \<mapsto> JNumber (Finite (1 / 2048))], \<dots> = TokenRequestResult_class\<rparr>
          \<lparr>clock = 1700000000000, clock_reads = 0\<rparr>) \<noteq>
     Inr (Date (Finite (1700000000000 + (1 / 2048) * 1000)))"
proof -
  let ?w = "\<lparr>clock = 1700000000000, clock_reads = 0\<rparr>"
  let ?big = "\<lparr>body = [''expires_in'' \<mapsto> JNumber (Finite 9000000000000)], \<dots> = TokenRequestResult_class\<rparr>"
  let ?small = "\<lparr>body = [''expires_in'' \<mapsto> JNumber (Finite (1 / 2048))], \<dots> = TokenRequestResult_class\<rparr>"
  have big: "fst (accessTokenExpiresAt ?big ?w) = Inr (Date NaN)"
    using accessTokenExpiresAt_out_of_range[of ?big 9000000000000 9000000000000000 ?w] by simp
  have small: "fst (accessTokenExpiresAt ?small ?w) = Inr (Date (Finite 1700000000000))"
    using half_millisecond by (simp add: accessTokenExpiresAt_eq del: js_add.simps js_mul.simps)
  show ?thesis unfolding big small by simp
qed

section \<open>Accessors are pure reads\<close>

lemma pure_read_base:
  fixes this :: "'x OAuth2RequestResult_scheme"
  shows "pure_read hasErrorCode this w w'" "pure_read errorCode this w w'"
    "pure_read hasErrorDescription this w w'" "pure_read errorDescription this w w'"
    "pure_read hasErrorURI this w w'" "pure_read errorURI this w w'"
    "pure_read hasState this w w'" "pure_read state this w w'"
  by (simp_all add: pure_read_def hasErrorCode_def errorCode_def hasErrorDescription_def
      errorDescription_def hasErrorURI_def errorURI_def hasState_def state_def)

lemma pure_read_token:
  "pure_read tokenType tok w w'" "pure_read accessToken tok w w'"
  "pure_read accessTokenExpiresInSeconds tok w w'"
  "pure_read hasRefreshToken tok w w'" "pure_read refreshToken tok w w'"
  "pure_read hasScopes tok w w'" "pure_read scopes tok w w'"
  by (simp_all add: pure_read_def tokenType_def accessToken_def accessTokenExpiresInSeconds_def
      hasRefreshToken_def refreshToken_def hasScopes_def scopes_def)

lemma pure_read_device:
  "pure_read deviceCode dev w w'" "pure_read userCode dev w w'"
  "pure_read verificationURI dev w w'" "pure_read codesExpireInSeconds dev w w'"
  "pure_read intervalSeconds dev w w'"
  by (simp_all add: pure_read_def deviceCode_def userCode_def verificationURI_def
      codesExpireInSeconds_def intervalSeconds_def)

lemma expiresAt_receiver:
  "fst (snd (accessTokenExpiresAt tok w)) = tok" "fst (snd (codesExpireAt dev w)) = dev"
  by (simp_all add: accessTokenExpiresAt_eq codesExpireAt_eq split: option.splits js_value.splits)

text \<open>
  Claim C8. Every accessor leaves the receiver as it was, whether it returns or throws.
  The eighteen accessors that do not read the clock leave the world as it was as well,
  and return in every world what they return in any other: a second call on the same
  object starts from the same payload and gives the same result.
\<close>

theorem accessors_pure_reads:
  fixes this :: "'x OAuth2RequestResult_scheme"
    and tok :: TokenRequestResult and dev :: DeviceAuthorizationRequestResult
  shows "pure_read hasErrorCode this w w' \<and> pure_read errorCode this w w' \<and>
    pure_read hasErrorDescription this w w' \<and> pure_read errorDescription this w w' \<and>
    pure_read hasErrorURI this w w' \<and> pure_read errorURI this w w' \<and>
    pure_read hasState this w w' \<and> pure_read state this w w' \<and>
    pure_read tokenType tok w w' \<and> pure_read accessToken tok w w' \<and>
    pure_read accessTokenExpiresInSeconds tok w w' \<and>
    pure_read hasRefreshToken tok w w' \<and> pure_read refreshToken tok w w' \<and>
    pure_read hasScopes tok w w' \<and> pure_read scopes tok w w' \<and>
    pure_read deviceCode dev w w' \<and> pure_read userCode dev w w' \<and>
    pure_read verificationURI dev w w' \<and> pure_read codesExpireInSeconds dev w w' \<and>
    pure_read intervalSeconds dev w w' \<and>
    fst (snd (accessTokenExpiresAt tok w)) = tok \<and>
    fst (snd (codesExpireAt dev w)) = dev"
  by (intro conjI pure_read_base pure_read_token pure_read_device expiresAt_receiver)

end
